theory Spec2Isabelle
  imports Complex_Main
begin

section \<open>JavaScript values met by the confirmation workflow\<close>

text \<open>
  The workflow lives in \<^verbatim>\<open>ProfileScreen.tsx\<close>. Its pure helpers
  (\<^verbatim>\<open>parseRational\<close>, \<^verbatim>\<open>dmsToDecimal\<close>, \<^verbatim>\<open>getCoordsFromExif\<close>,
  \<^verbatim>\<open>isRecentlyUpdated\<close>) are embedded as functions; the two handlers
  (\<^verbatim>\<open>handleAcceptStatus\<close>, \<^verbatim>\<open>handleRejectStatus\<close> with
  \<^verbatim>\<open>handleImageSelection\<close>) are embedded as state transformers over the hosted table
  and the storage bucket, with every answer of an external collaborator read from a
  record.

  A JavaScript number is a rational, an infinity or NaN. Rounding to a double, overflow
  of a finite value to an infinity and the sign of zero are not modelled: \<open>Fin 0\<close>
  stands for both zeros. An instant is an integer count of milliseconds; the bound that
  \<^verbatim>\<open>Date\<close> puts on its time values (8.64e15 ms either side of the epoch) is not
  modelled either.
\<close>

datatype jsnum = NaN | Fin rat | PosInf | NegInf

text \<open>The primitive values an EXIF tag component can hold.\<close>

datatype jsval = JUndefined | JNull | JBool bool | JNum jsnum | JStr string

definition isNaN :: "jsnum \<Rightarrow> bool" where
  "isNaN x = (x = NaN)"

fun jneg :: "jsnum \<Rightarrow> jsnum" where
  "jneg NaN = NaN"
| "jneg (Fin a) = Fin (- a)"
| "jneg PosInf = NegInf"
| "jneg NegInf = PosInf"

fun jadd :: "jsnum \<Rightarrow> jsnum \<Rightarrow> jsnum" where
  "jadd NaN y = NaN"
| "jadd x NaN = NaN"
| "jadd (Fin a) (Fin b) = Fin (a + b)"
| "jadd PosInf NegInf = NaN"
| "jadd NegInf PosInf = NaN"
| "jadd PosInf y = PosInf"
| "jadd NegInf y = NegInf"
| "jadd (Fin a) y = y"

text \<open>
  Division as IEEE 754 has it. A zero divisor is the positive zero here; the source
  divides by the constants 60 and 3600 and by a denominator it has tested against zero,
  so those equations are never reached from it.
\<close>

fun jdiv :: "jsnum \<Rightarrow> jsnum \<Rightarrow> jsnum" where
  "jdiv NaN y = NaN"
| "jdiv x NaN = NaN"
| "jdiv (Fin a) (Fin b) =
     (if b = 0 then (if a = 0 then NaN else if 0 < a then PosInf else NegInf)
      else Fin (a / b))"
| "jdiv (Fin a) y = Fin 0"
| "jdiv PosInf (Fin b) = (if 0 \<le> b then PosInf else NegInf)"
| "jdiv NegInf (Fin b) = (if 0 \<le> b then NegInf else PosInf)"
| "jdiv x y = NaN"

text \<open>\<^verbatim>\<open>x || 0\<close> on a number: NaN and zero are falsy.\<close>

definition or_zero :: "jsnum \<Rightarrow> jsnum" where
  "or_zero x = (if x = NaN \<or> x = Fin 0 then Fin 0 else x)"

subsection \<open>\<^verbatim>\<open>Number\<close> applied to a string\<close>

text \<open>
  The built-in conversion (ECMAScript \<^verbatim>\<open>StringToNumber\<close>): white space is trimmed, the
  empty string is zero, then comes a signed decimal literal with an optional fraction and
  exponent, a signed \<^verbatim>\<open>Infinity\<close>, or an unsigned binary, octal or hexadecimal integer;
  anything else is NaN. Only the ASCII white space characters are trimmed.
\<close>

definition is_space :: "char \<Rightarrow> bool" where
  "is_space c = (c \<in> set [CHR '' '', CHR 0x09, CHR 0x0A, CHR 0x0B, CHR 0x0C, CHR 0x0D])"

definition trim :: "string \<Rightarrow> string" where
  "trim s = rev (dropWhile is_space (rev (dropWhile is_space s)))"

definition digit_of :: "char \<Rightarrow> nat option" where
  "digit_of c =
     (let n = of_char c :: nat in
      if 48 \<le> n \<and> n \<le> 57 then Some (n - 48)
      else if 97 \<le> n \<and> n \<le> 102 then Some (n - 87)
      else if 65 \<le> n \<and> n \<le> 70 then Some (n - 55)
      else None)"

definition is_digit :: "nat \<Rightarrow> char \<Rightarrow> bool" where
  "is_digit base c = (case digit_of c of None \<Rightarrow> False | Some d \<Rightarrow> d < base)"

definition digits_value :: "nat \<Rightarrow> string \<Rightarrow> nat" where
  "digits_value base ds =
     foldl (\<lambda>acc c. acc * base + (case digit_of c of None \<Rightarrow> 0 | Some d \<Rightarrow> d)) 0 ds"

definition radix_literal :: "nat \<Rightarrow> string \<Rightarrow> jsnum" where
  "radix_literal base ds =
     (if ds \<noteq> [] \<and> list_all (is_digit base) ds then Fin (of_nat (digits_value base ds))
      else NaN)"

definition exponent_part :: "rat \<Rightarrow> string \<Rightarrow> jsnum" where
  "exponent_part m r =
     (case r of
        [] \<Rightarrow> Fin m
      | c # r1 \<Rightarrow>
          if c = CHR ''e'' \<or> c = CHR ''E'' then
            (let neg = (r1 \<noteq> [] \<and> hd r1 = CHR ''-'');
                 r2 = (if r1 \<noteq> [] \<and> (hd r1 = CHR ''-'' \<or> hd r1 = CHR ''+'') then tl r1
                       else r1)
             in if r2 \<noteq> [] \<and> list_all (is_digit 10) r2
                then (if neg then Fin (m / 10 ^ digits_value 10 r2)
                      else Fin (m * 10 ^ digits_value 10 r2))
                else NaN)
          else NaN)"

definition decimal_literal :: "string \<Rightarrow> jsnum" where
  "decimal_literal u =
     (let ip = takeWhile (is_digit 10) u;
          r1 = dropWhile (is_digit 10) u;
          dot = (r1 \<noteq> [] \<and> hd r1 = CHR ''.'');
          fp = (if dot then takeWhile (is_digit 10) (tl r1) else []);
          r2 = (if dot then dropWhile (is_digit 10) (tl r1) else r1)
      in if ip = [] \<and> fp = [] then NaN
         else exponent_part
                (of_nat (digits_value 10 ip) + of_nat (digits_value 10 fp) / 10 ^ length fp) r2)"

definition signed_literal :: "string \<Rightarrow> jsnum" where
  "signed_literal t =
     (let neg = (t \<noteq> [] \<and> hd t = CHR ''-'');
          u = (if t \<noteq> [] \<and> (hd t = CHR ''-'' \<or> hd t = CHR ''+'') then tl t else t);
          v = (if u = ''Infinity'' then PosInf else decimal_literal u)
      in if neg then jneg v else v)"

definition Number_str :: "string \<Rightarrow> jsnum" where
  "Number_str s =
     (let t = trim s in
      if t = [] then Fin 0
      else if take 2 t = ''0x'' \<or> take 2 t = ''0X'' then radix_literal 16 (drop 2 t)
      else if take 2 t = ''0o'' \<or> take 2 t = ''0O'' then radix_literal 8 (drop 2 t)
      else if take 2 t = ''0b'' \<or> take 2 t = ''0B'' then radix_literal 2 (drop 2 t)
      else signed_literal t)"

text \<open>\<^verbatim>\<open>Number\<close> on any primitive value.\<close>

fun Number :: "jsval \<Rightarrow> jsnum" where
  "Number JUndefined = NaN"
| "Number JNull = Fin 0"
| "Number (JBool b) = (if b then Fin 1 else Fin 0)"
| "Number (JNum x) = x"
| "Number (JStr s) = Number_str s"

text \<open>\<^verbatim>\<open>s.split('/')\<close>: the pieces between the separators, at least one piece.\<close>

fun split_on :: "char \<Rightarrow> string \<Rightarrow> string list" where
  "split_on sep [] = [[]]"
| "split_on sep (c # cs) =
     (if c = sep then [] # split_on sep cs
      else (case split_on sep cs of [] \<Rightarrow> [[c]] | p # ps \<Rightarrow> (c # p) # ps))"

section \<open>Coordinates from EXIF tags\<close>

text \<open>
  \<^verbatim>\<open>parseRational\<close>: a number is returned as it is (NaN included); a string holding a
  slash is split and its first two pieces converted, the quotient returned when both are
  numbers and the second is not zero; every other value, and a rational string that fails
  that test, goes through \<^verbatim>\<open>Number(value) || 0\<close>.
\<close>

definition parseRational :: "jsval \<Rightarrow> jsnum" where
  "parseRational v =
     (case v of
        JNum x \<Rightarrow> x
      | JStr s \<Rightarrow>
          (if CHR ''/'' \<in> set s then
             (let parts = map Number_str (split_on CHR ''/'' s);
                  n = parts ! 0;
                  d = parts ! 1
              in if \<not> isNaN n \<and> \<not> isNaN d \<and> d \<noteq> Fin 0 then jdiv n d
                 else or_zero (Number v))
           else or_zero (Number v))
      | _ \<Rightarrow> or_zero (Number v))"

text \<open>
  \<^verbatim>\<open>dmsToDecimal\<close>. The first argument is \<open>None\<close> when the tag is not an array. The
  flag is compared with the two letters only, so any other flag, and none, leaves the
  sign alone.
\<close>

definition dmsToDecimal :: "jsval list option \<Rightarrow> string option \<Rightarrow> jsnum option" where
  "dmsToDecimal dms ref =
     (case dms of
        None \<Rightarrow> None
      | Some xs \<Rightarrow>
          if length xs < 3 then None
          else
            (let deg = parseRational (xs ! 0);
                 mn = parseRational (xs ! 1);
                 sec = parseRational (xs ! 2)
             in if isNaN deg \<or> isNaN mn \<or> isNaN sec then None
                else
                  (let dec = jadd (jadd deg (jdiv mn (Fin 60))) (jdiv sec (Fin 3600))
                   in if ref = Some ''S'' \<or> ref = Some ''W'' then Some (jneg dec)
                      else Some dec)))"


text \<open>
  \<^verbatim>\<open>getCoordsFromExif\<close>. A tag is \<open>None\<close> when it is missing or holds anything but an
  array: \<^verbatim>\<open>exif.GPSLatitude || exif.GPSLatitude?.values\<close> is the tag itself when truthy
  and \<^verbatim>\<open>undefined\<close> otherwise, and \<^verbatim>\<open>dmsToDecimal\<close> answers null to both. The
  \<^verbatim>\<open>try\<close> around the two conversions guards property reads that cannot fail on the
  values modelled here.
\<close>

record exif_tags =
  GPSLatitude :: "jsval list option"
  GPSLatitudeRef :: "string option"
  GPSLongitude :: "jsval list option"
  GPSLongitudeRef :: "string option"

definition getCoordsFromExif :: "exif_tags \<Rightarrow> (jsnum \<times> jsnum) option" where
  "getCoordsFromExif exif =
     (let lat = dmsToDecimal (GPSLatitude exif) (GPSLatitudeRef exif);
          lon = dmsToDecimal (GPSLongitude exif) (GPSLongitudeRef exif)
      in case (lat, lon) of
           (Some la, Some lo) \<Rightarrow> Some (la, lo)
         | _ \<Rightarrow> None)"

section \<open>The complaint table and the storage bucket\<close>

text \<open>
  A row of the table \<^verbatim>\<open>complaints\<close>. An instant is a count of milliseconds since the
  epoch, the value \<^verbatim>\<open>new Date(text).getTime()\<close> reads from a timestamp column and
  \<^verbatim>\<open>toISOString\<close> writes back; \<open>None\<close> is the null column.
\<close>

record complaint =
  title :: string
  description :: string
  category_id :: int
  status :: string
  created_at :: int
  updated_at :: "int option"
  submitted_date :: "int option"
  location :: string
  latitude :: jsnum
  longitude :: jsnum
  photo_url :: string
  created_by :: string

text \<open>
  The object handed to \<^verbatim>\<open>update\<close>: one optional entry for each column, \<open>None\<close> where
  the object has no such key.
\<close>

record patch =
  p_title :: "string option"
  p_description :: "string option"
  p_category_id :: "int option"
  p_status :: "string option"
  p_created_at :: "int option"
  p_updated_at :: "int option"
  p_submitted_date :: "int option"
  p_location :: "string option"
  p_latitude :: "jsnum option"
  p_longitude :: "jsnum option"
  p_photo_url :: "string option"
  p_created_by :: "string option"

definition no_patch :: patch where
  "no_patch =
     \<lparr>p_title = None, p_description = None, p_category_id = None, p_status = None,
      p_created_at = None, p_updated_at = None, p_submitted_date = None, p_location = None,
      p_latitude = None, p_longitude = None, p_photo_url = None, p_created_by = None\<rparr>"

definition written :: "'a option \<Rightarrow> 'a \<Rightarrow> 'a" where
  "written new old = (case new of None \<Rightarrow> old | Some v \<Rightarrow> v)"

definition written_opt :: "'a option \<Rightarrow> 'a option \<Rightarrow> 'a option" where
  "written_opt new old = (case new of None \<Rightarrow> old | Some v \<Rightarrow> Some v)"

definition apply_patch :: "patch \<Rightarrow> complaint \<Rightarrow> complaint" where
  "apply_patch p r =
     \<lparr>title = written (p_title p) (title r),
      description = written (p_description p) (description r),
      category_id = written (p_category_id p) (category_id r),
      status = written (p_status p) (status r),
      created_at = written (p_created_at p) (created_at r),
      updated_at = written_opt (p_updated_at p) (updated_at r),
      submitted_date = written_opt (p_submitted_date p) (submitted_date r),
      location = written (p_location p) (location r),
      latitude = written (p_latitude p) (latitude r),
      longitude = written (p_longitude p) (longitude r),
      photo_url = written (p_photo_url p) (photo_url r),
      created_by = written (p_created_by p) (created_by r)\<rparr>"

datatype js_error = JsError string

text \<open>\<^verbatim>\<open>error.message || fallback\<close>: an empty or missing message is falsy.\<close>

fun message_or :: "js_error \<Rightarrow> string \<Rightarrow> string" where
  "message_or (JsError m) fallback = (if m = [] then fallback else m)"

text \<open>
  What the handlers act on: the table by complaint id, the objects of the bucket by file
  name, and the row updates the table has committed, oldest first.
\<close>

record world =
  complaints :: "nat \<rightharpoonup> complaint"
  bucket :: "string \<rightharpoonup> nat list"
  writes :: "(nat \<times> patch) list"

text \<open>
  Modelled from the spec: the hosted table behind \<^verbatim>\<open>supabase.from('complaints')\<close> is
  not part of the repository. An update filtered by id either answers with an error and
  changes nothing, or commits the patch to the matching row in one write; the table
  assigns \<open>updated_at\<close> itself on every mutation (the instant \<open>stamp\<close>). \<open>committed\<close>
  is the table after such a write.
\<close>

definition committed :: "int \<Rightarrow> nat \<Rightarrow> patch \<Rightarrow> world \<Rightarrow> world" where
  "committed stamp cid p w =
     w\<lparr>complaints :=
         (case complaints w cid of
            None \<Rightarrow> complaints w
          | Some r \<Rightarrow> (complaints w)(cid \<mapsto> (apply_patch p r)\<lparr>updated_at := Some stamp\<rparr>)),
       writes := writes w @ [(cid, p)]\<rparr>"

definition store_update ::
  "js_error option \<Rightarrow> int \<Rightarrow> nat \<Rightarrow> patch \<Rightarrow> world \<Rightarrow> js_error option \<times> world" where
  "store_update answer stamp cid p w =
     (case answer of
        Some e \<Rightarrow> (Some e, w)
      | None \<Rightarrow> (None, committed stamp cid p w))"

text \<open>
  Modelled from the spec: the storage service behind \<^verbatim>\<open>supabase.storage\<close> is not part
  of the repository. An upload either answers with an error and stores nothing, or stores
  the bytes under the key.
\<close>

definition storage_upload ::
  "js_error option \<Rightarrow> string \<Rightarrow> nat list \<Rightarrow> world \<Rightarrow> js_error option \<times> world" where
  "storage_upload answer key bytes w =
     (case answer of
        Some e \<Rightarrow> (Some e, w)
      | None \<Rightarrow> (None, w\<lparr>bucket := (bucket w)(key \<mapsto> bytes)\<rparr>))"

section \<open>The confirmation predicate\<close>

text \<open>
  \<^verbatim>\<open>isRecentlyUpdated\<close>, with the reading of \<^verbatim>\<open>Date.now()\<close> as an argument. The guard
  comes first; the age in days is the quotient the source computes, taken exactly. (In
  doubles the quotient of a whole number of milliseconds by 86400000 is at most 7 exactly
  when the exact quotient is: 604800000 gives 7, and the next whole number already gives
  a quotient that exceeds 7 by more than the spacing of doubles there.)
\<close>

definition isRecentlyUpdated :: "int \<Rightarrow> complaint \<Rightarrow> bool" where
  "isRecentlyUpdated now c =
     (case updated_at c of
        None \<Rightarrow> False
      | Some updated \<Rightarrow>
          (case submitted_date c of
             None \<Rightarrow> False
           | Some submitted \<Rightarrow>
               (let daysSinceUpdate = (of_int (now - updated) :: rat) / (1000 * 60 * 60 * 24);
                    isUpdatedAfterSubmit = (submitted < updated)
                in isUpdatedAfterSubmit \<and> daysSinceUpdate \<le> 7)))"


definition day_ms :: int where
  "day_ms = 1000 * 60 * 60 * 24"

section \<open>The handlers\<close>

text \<open>
  Every answer of a collaborator during one run of a handler. An awaited call that can
  reject answers \<open>Inl\<close> with the error thrown. The table and the storage service answer
  with an optional error. \<open>fileClock\<close> is the reading of \<^verbatim>\<open>Date.now()\<close> that names
  the file, \<open>stampClock\<close> the reading of \<^verbatim>\<open>new Date()\<close> before the row update, and
  \<open>serverStamp\<close> the instant the table gives to \<open>updated_at\<close> on that update.

  The device's time zone is the pair of offsets ECMAScript calls \<^verbatim>\<open>LocalTZA\<close>, in
  milliseconds: \<open>LocalTZA_utc t\<close> is the offset of local time from UTC in force at the
  instant \<open>t\<close>, and \<open>LocalTZA_local wall\<close> is the offset by which the wall-clock time
  \<open>wall\<close> is read back as an instant.
\<close>

datatype source = Camera | Gallery

datatype choice = Choose source | CancelChoice

record asset =
  uri :: string
  exif :: "exif_tags option"

datatype picker_result = Canceled | Picked "asset list"

record geo_address =
  street :: "string option"
  city :: "string option"
  region :: "string option"
  country :: "string option"

record env =
  selectAnswer :: "js_error + (string \<times> string \<times> int)"
  sourceChoice :: choice
  cameraPermission :: "js_error + bool"
  launchCamera :: "js_error + picker_result"
  libraryPermission :: "js_error + bool"
  launchLibrary :: "js_error + picker_result"
  foregroundPermission :: "js_error + string"
  currentPosition :: "js_error + (jsnum \<times> jsnum)"
  reverseGeocode :: "js_error + geo_address list"
  fetchImage :: "js_error + nat list"
  fileClock :: int
  uploadAnswer :: "js_error option"
  publicUrlOf :: "string \<Rightarrow> string"
  stampClock :: int
  updateAnswer :: "js_error option"
  serverStamp :: int
  LocalTZA_utc :: "int \<Rightarrow> int"
  LocalTZA_local :: "int \<Rightarrow> int"

datatype alert = Alert string string

subsection \<open>\<^verbatim>\<open>Date\<close>: the seconds field in local time\<close>

text \<open>
  The abstract operations of ECMAScript on a time value, with \<^verbatim>\<open>floor\<close> and
  \<^verbatim>\<open>modulo\<close> as \<open>div\<close> and \<open>mod\<close> on integers.
\<close>

definition Day :: "int \<Rightarrow> int" where
  "Day t = t div 86400000"

definition HourFromTime :: "int \<Rightarrow> int" where
  "HourFromTime t = (t div 3600000) mod 24"

definition MinFromTime :: "int \<Rightarrow> int" where
  "MinFromTime t = (t div 60000) mod 60"

definition SecFromTime :: "int \<Rightarrow> int" where
  "SecFromTime t = (t div 1000) mod 60"

definition msFromTime :: "int \<Rightarrow> int" where
  "msFromTime t = t mod 1000"

definition MakeTime :: "int \<Rightarrow> int \<Rightarrow> int \<Rightarrow> int \<Rightarrow> int" where
  "MakeTime h m s ms = h * 3600000 + m * 60000 + s * 1000 + ms"

definition MakeDate :: "int \<Rightarrow> int \<Rightarrow> int" where
  "MakeDate day time = day * 86400000 + time"

definition LocalTime :: "env \<Rightarrow> int \<Rightarrow> int" where
  "LocalTime e t = t + LocalTZA_utc e t"

definition UTC :: "env \<Rightarrow> int \<Rightarrow> int" where
  "UTC e wall = wall - LocalTZA_local e wall"

text \<open>\<^verbatim>\<open>date.getSeconds()\<close> and the time value after \<^verbatim>\<open>date.setSeconds(sec)\<close>.\<close>

definition getSeconds :: "env \<Rightarrow> int \<Rightarrow> int" where
  "getSeconds e t = SecFromTime (LocalTime e t)"

definition setSeconds :: "env \<Rightarrow> int \<Rightarrow> int \<Rightarrow> int" where
  "setSeconds e t sec =
     (let wall = LocalTime e t;
          date = MakeDate (Day wall)
                   (MakeTime (HourFromTime wall) (MinFromTime wall) sec (msFromTime wall))
      in UTC e date)"

text \<open>
  \<^verbatim>\<open>const futureDate = new Date(); futureDate.setSeconds(futureDate.getSeconds() + 2)\<close>:
  the instant written as \<open>submitted_date\<close>.
\<close>

definition futureDate :: "env \<Rightarrow> int" where
  "futureDate e = setSeconds e (stampClock e) (getSeconds e (stampClock e) + 2)"

definition verified_notice :: string where
  "verified_notice =
     ''The complaint status has been updated to '' @ [CHR 0x22] @ ''verified'' @ [CHR 0x22] @ ''.''"

text \<open>The object handed to the update, for the instant \<open>fd\<close> that \<open>futureDate\<close> holds.\<close>

definition accept_patch :: "int \<Rightarrow> patch" where
  "accept_patch fd =
     no_patch\<lparr>p_status := Some ''verified'', p_submitted_date := Some fd\<rparr>"

text \<open>
  \<^verbatim>\<open>handleAcceptStatus(complaintId, status)\<close>. The second argument is never read. The
  refresh of the displayed list after the alert reads the table and is left out.
\<close>

definition handleAcceptStatus :: "env \<Rightarrow> nat \<Rightarrow> string \<Rightarrow> world \<Rightarrow> alert option \<times> world" where
  "handleAcceptStatus e complaintId st w =
     (case store_update (updateAnswer e) (serverStamp e) complaintId
             (accept_patch (futureDate e)) w of
        (Some err, w') \<Rightarrow> (Some (Alert ''Error'' (message_or err ''Failed to update status'')), w')
      | (None, w') \<Rightarrow> (Some (Alert ''OK'' verified_notice), w'))"

subsection \<open>Rejecting: new evidence\<close>

text \<open>
  The decimal text of the clock reading inside the template literal, built from the last
  digit backwards.
\<close>

fun decimal_digits :: "nat \<Rightarrow> string \<Rightarrow> string" where
  "decimal_digits n acc =
     (if n < 10 then char_of (48 + n) # acc
      else decimal_digits (n div 10) (char_of (48 + n mod 10) # acc))"

declare decimal_digits.simps [simp del]

definition string_of_int :: "int \<Rightarrow> string" where
  "string_of_int i =
     (if i < 0 then CHR ''-'' # decimal_digits (nat (- i)) [] else decimal_digits (nat i) [])"

fun join :: "string \<Rightarrow> string list \<Rightarrow> string" where
  "join sep [] = []"
| "join sep [x] = x"
| "join sep (x # y # ys) = x @ sep @ join sep (y # ys)"

text \<open>\<^verbatim>\<open>[street, city, region, country].filter(Boolean).join(', ')\<close>.\<close>

definition truthy_str :: "string option \<Rightarrow> bool" where
  "truthy_str s = (case s of None \<Rightarrow> False | Some t \<Rightarrow> t \<noteq> [])"

definition format_address :: "geo_address \<Rightarrow> string" where
  "format_address loc =
     join '', '' (map the (filter truthy_str [street loc, city loc, region loc, country loc]))"

definition placeholder_address :: string where
  "placeholder_address = ''Location not available''"

text \<open>Lines 268 to 280: the address, with the geocoder's failure caught on the spot.\<close>

definition resolve_address :: "env \<Rightarrow> string" where
  "resolve_address e =
     (case reverseGeocode e of
        Inl err \<Rightarrow> placeholder_address
      | Inr [] \<Rightarrow> placeholder_address
      | Inr (loc # rest) \<Rightarrow> format_address loc)"

text \<open>
  Lines 241 to 261: the coordinate, from the image's tags first and from the device
  second. \<open>Inr None\<close> is the pair of variables still null after both; \<open>Inl\<close> is an
  awaited call that threw.
\<close>

definition resolve_coords :: "env \<Rightarrow> exif_tags option \<Rightarrow> js_error + (jsnum \<times> jsnum) option" where
  "resolve_coords e ex =
     (case (case ex of None \<Rightarrow> None | Some tags \<Rightarrow> getCoordsFromExif tags) of
        Some c \<Rightarrow> Inr (Some c)
      | None \<Rightarrow>
          (case foregroundPermission e of
             Inl err \<Rightarrow> Inl err
           | Inr st \<Rightarrow>
               if st = ''granted'' then
                 (case currentPosition e of
                    Inl err \<Rightarrow> Inl err
                  | Inr c \<Rightarrow> Inr (Some c))
               else Inr None))"

text \<open>\<^verbatim>\<open>imageUri.split('.').pop() || 'jpg'\<close> and the file name built from it.\<close>

definition fileExt :: "string \<Rightarrow> string" where
  "fileExt imageUri =
     (let piece = last (split_on CHR ''.'' imageUri) in if piece = [] then ''jpg'' else piece)"

definition fileName :: "env \<Rightarrow> string \<Rightarrow> string" where
  "fileName e imageUri = string_of_int (fileClock e) @ ''.'' @ fileExt imageUri"

definition reject_patch :: "string \<Rightarrow> jsnum \<times> jsnum \<Rightarrow> string \<Rightarrow> int \<Rightarrow> patch" where
  "reject_patch url c address fd =
     no_patch\<lparr>p_photo_url := Some url, p_latitude := Some (fst c), p_longitude := Some (snd c),
       p_location := Some address, p_status := Some ''pending'',
       p_submitted_date := Some fd\<rparr>"

definition no_gps_alert :: alert where
  "no_gps_alert = Alert ''Error'' ''Could not get GPS location. Please enable location services.''"

definition success_alert :: alert where
  "success_alert =
     Alert ''Success'' ''Image and location updated successfully! Status changed to pending.''"

definition permission_alert :: "source \<Rightarrow> alert" where
  "permission_alert src =
     (case src of
        Camera \<Rightarrow> Alert ''Permission Required'' ''Camera permission is needed.''
      | Gallery \<Rightarrow> Alert ''Permission Required'' ''Gallery permission is needed.'')"

text \<open>
  Lines 282 to 320: fetch the image, upload it, and update the row. The left result is an
  error thrown to the handler's \<^verbatim>\<open>catch\<close>; the state returned with it is the state at
  the throw.
\<close>

definition upload_and_update ::
  "env \<Rightarrow> nat \<Rightarrow> string \<Rightarrow> jsnum \<times> jsnum \<Rightarrow> string \<Rightarrow> world \<Rightarrow> (js_error + alert option) \<times> world" where
  "upload_and_update e complaintId imageUri c address w =
     (case fetchImage e of
        Inl err \<Rightarrow> (Inl err, w)
      | Inr arrayBuffer \<Rightarrow>
          (case storage_upload (uploadAnswer e) (fileName e imageUri) arrayBuffer w of
             (Some uploadError, w1) \<Rightarrow> (Inl uploadError, w1)
           | (None, w1) \<Rightarrow>
               (case store_update (updateAnswer e) (serverStamp e) complaintId
                       (reject_patch (publicUrlOf e (fileName e imageUri)) c address
                          (futureDate e)) w1 of
                  (Some updateError, w2) \<Rightarrow> (Inl updateError, w2)
                | (None, w2) \<Rightarrow> (Inr (Some success_alert), w2))))"

text \<open>
  Lines 236 to 280: from the picker's result to the address. A cancelled picker and a
  result without a first asset both end the run silently
  (\<^verbatim>\<open>result.canceled || !result.assets[0]\<close>).
\<close>

definition after_pick ::
  "env \<Rightarrow> nat \<Rightarrow> picker_result \<Rightarrow> world \<Rightarrow> (js_error + alert option) \<times> world" where
  "after_pick e complaintId result w =
     (case result of
        Canceled \<Rightarrow> (Inr None, w)
      | Picked [] \<Rightarrow> (Inr None, w)
      | Picked (a # rest) \<Rightarrow>
          (case resolve_coords e (exif a) of
             Inl err \<Rightarrow> (Inl err, w)
           | Inr None \<Rightarrow> (Inr (Some no_gps_alert), w)
           | Inr (Some c) \<Rightarrow>
               upload_and_update e complaintId (uri a) c (resolve_address e) w))"

text \<open>Lines 207 to 234: the permission for the chosen source and the picker.\<close>

definition pick_image :: "env \<Rightarrow> source \<Rightarrow> js_error + (alert + picker_result)" where
  "pick_image e src =
     (case (case src of Camera \<Rightarrow> cameraPermission e | Gallery \<Rightarrow> libraryPermission e) of
        Inl err \<Rightarrow> Inl err
      | Inr granted \<Rightarrow>
          if \<not> granted then Inr (Inl (permission_alert src))
          else
            (case (case src of Camera \<Rightarrow> launchCamera e | Gallery \<Rightarrow> launchLibrary e) of
               Inl err \<Rightarrow> Inl err
             | Inr result \<Rightarrow> Inr (Inr result)))"

text \<open>
  \<^verbatim>\<open>handleImageSelection\<close>: the body inside \<^verbatim>\<open>try\<close>, then the \<^verbatim>\<open>catch\<close> that turns
  a thrown error into an alert. The argument \<^verbatim>\<open>complaintData\<close> is never read.
\<close>

definition handleImageSelection ::
  "env \<Rightarrow> nat \<Rightarrow> string \<times> string \<times> int \<Rightarrow> source \<Rightarrow> world \<Rightarrow> alert option \<times> world" where
  "handleImageSelection e complaintId complaintData src w =
     (case (case pick_image e src of
              Inl err \<Rightarrow> (Inl err, w)
            | Inr (Inl a) \<Rightarrow> (Inr (Some a), w)
            | Inr (Inr result) \<Rightarrow> after_pick e complaintId result w) of
        (Inl err, w') \<Rightarrow> (Some (Alert ''Error'' (message_or err ''Failed to update image'')), w')
      | (Inr a, w') \<Rightarrow> (a, w'))"


section \<open>A sample run\<close>

text \<open>
  One complaint that an administrator has resolved, and a run in which every
  collaborator answers well: the camera gives a photo without tags, the device gives the
  position, the geocoder an address. The device is five and a half hours ahead of UTC
  all year.
\<close>

definition sample_complaint :: complaint where
  "sample_complaint =
     \<lparr>title = ''Pothole'', description = ''Deep hole'', category_id = 3, status = ''resolved'',
      created_at = 1000, updated_at = Some 5000, submitted_date = Some 1000,
      location = ''Main St'', latitude = Fin 12, longitude = Fin 77,
      photo_url = ''old.jpg'', created_by = ''a@b.c''\<rparr>"

definition sample_world :: world where
  "sample_world = \<lparr>complaints = [1 \<mapsto> sample_complaint], bucket = Map.empty, writes = []\<rparr>"

definition sample_env :: env where
  "sample_env =
     \<lparr>selectAnswer = Inr (''Pothole'', ''Deep hole'', 3),
      sourceChoice = Choose Camera,
      cameraPermission = Inr True,
      launchCamera = Inr (Picked [\<lparr>uri = ''file:///photo.png'', exif = None\<rparr>]),
      libraryPermission = Inr True,
      launchLibrary = Inr Canceled,
      foregroundPermission = Inr ''granted'',
      currentPosition = Inr (Fin 40, Fin (- 74)),
      reverseGeocode =
        Inr [\<lparr>street = Some ''5th Ave'', city = Some ''New York'', region = None,
              country = Some ''US''\<rparr>],
      fetchImage = Inr [137, 80, 78, 71],
      fileClock = 1700,
      uploadAnswer = None,
      publicUrlOf = (\<lambda>key. ''https://store/'' @ key),
      stampClock = 6000,
      updateAnswer = None,
      serverStamp = 6400,
      LocalTZA_utc = (\<lambda>t. 19800000),
      LocalTZA_local = (\<lambda>wall. 19800000)\<rparr>"



section \<open>Properties of the coordinate conversion\<close>

lemma split_on_nonempty: "split_on sep s \<noteq> []"
  by (induction s) (auto split: list.splits)

text \<open>
  A string that holds the separator splits into at least two pieces, so the two reads
  \<^verbatim>\<open>const [n, d] = ...\<close> of \<open>parseRational\<close> are in range.
\<close>

lemma split_on_two: "sep \<in> set s \<Longrightarrow> 2 \<le> length (split_on sep s)"
proof (induction s)
  case Nil
  then show ?case by simp
next
  case (Cons c cs)
  show ?case
  proof (cases "c = sep")
    case True
    have "split_on sep cs \<noteq> []" by (rule split_on_nonempty)
    then have "1 \<le> length (split_on sep cs)" by (cases "split_on sep cs") auto
    with True show ?thesis by simp
  next
    case False
    with Cons have "2 \<le> length (split_on sep cs)" by simp
    with False show ?thesis by (cases "split_on sep cs") auto
  qed
qed

lemma dms_finite:
  assumes "parseRational x = Fin d" "parseRational y = Fin m" "parseRational z = Fin s"
  shows "dmsToDecimal (Some (x # y # z # rest)) ref =
    Some (Fin (if ref = Some ''S'' \<or> ref = Some ''W'' then - (d + m / 60 + s / 3600)
               else d + m / 60 + s / 3600))"
  using assms by (simp add: dmsToDecimal_def isNaN_def Let_def)

text \<open>
  Claim C7. Whenever the three components parse to the finite numbers \<open>d\<close>, \<open>m\<close> and
  \<open>s\<close>, the conversion answers \<open>d + m/60 + s/3600\<close>, negated exactly when the reference
  flag is S or W. In particular the triple 10, 30, 0 with flag S gives -10.5 and the
  triple 40, 0, 0 with flag N gives 40.
\<close>

theorem dmsToDecimal_formula:
  "(parseRational x = Fin d \<and> parseRational y = Fin m \<and> parseRational z = Fin s \<longrightarrow>
      dmsToDecimal (Some (x # y # z # rest)) ref =
        Some (Fin (if ref = Some ''S'' \<or> ref = Some ''W'' then - (d + m / 60 + s / 3600)
                   else d + m / 60 + s / 3600)))
   \<and> dmsToDecimal (Some [JNum (Fin 10), JNum (Fin 30), JNum (Fin 0)]) (Some ''S'')
       = Some (Fin (- (21 / 2)))
   \<and> dmsToDecimal (Some [JNum (Fin 40), JNum (Fin 0), JNum (Fin 0)]) (Some ''N'')
       = Some (Fin 40)"
proof (intro conjI impI)
  assume "parseRational x = Fin d \<and> parseRational y = Fin m \<and> parseRational z = Fin s"
  then show "dmsToDecimal (Some (x # y # z # rest)) ref =
        Some (Fin (if ref = Some ''S'' \<or> ref = Some ''W'' then - (d + m / 60 + s / 3600)
                   else d + m / 60 + s / 3600))"
    by (simp add: dms_finite)
next
  have p: "parseRational (JNum (Fin 10)) = Fin 10" "parseRational (JNum (Fin 30)) = Fin 30"
    "parseRational (JNum (Fin 0)) = Fin 0" "parseRational (JNum (Fin 40)) = Fin 40"
    by (simp_all add: parseRational_def)
  show "dmsToDecimal (Some [JNum (Fin 10), JNum (Fin 30), JNum (Fin 0)]) (Some ''S'')
      = Some (Fin (- (21 / 2)))"
    using dms_finite [OF p(1) p(2) p(3), of "[]" "Some ''S''"] by simp
  show "dmsToDecimal (Some [JNum (Fin 40), JNum (Fin 0), JNum (Fin 0)]) (Some ''N'')
      = Some (Fin 40)"
    using dms_finite [OF p(4) p(3) p(3), of "[]" "Some ''N''"] by simp
qed

theorem dmsToDecimal_formula_witness:
  "parseRational (JStr ''10/1'') = Fin 10 \<and> parseRational (JStr ''30'') = Fin 30
   \<and> parseRational (JStr ''0/1'') = Fin 0
   \<and> dmsToDecimal (Some [JStr ''10/1'', JStr ''30'', JStr ''0/1'']) (Some ''S'')
       = Some (Fin (- (21 / 2)))"
proof -
  have a: "parseRational (JStr ''10/1'') = Fin 10" by code_simp
  have b: "parseRational (JStr ''30'') = Fin 30" by code_simp
  have c: "parseRational (JStr ''0/1'') = Fin 0" by code_simp
  from dmsToDecimal_formula
         [of "JStr ''10/1''" 10 "JStr ''30''" 30 "JStr ''0/1''" 0 "[]" "Some ''S''"] a b c
  show ?thesis by simp
qed

text \<open>
  Claim C8, as the claim states it, fails. The triple 0, 0, 0 with flag S converts to
  zero, which is not negative; and nothing checks the range of a component, so the triple
  -10, 0, 0 with flag N converts to -10, which is negative.
\<close>

theorem dmsToDecimal_sign_counterexample:
  "dmsToDecimal (Some [JNum (Fin 0), JNum (Fin 0), JNum (Fin 0)]) (Some ''S'') = Some (Fin 0)
   \<and> \<not> (0::rat) < 0
   \<and> dmsToDecimal (Some [JNum (Fin (- 10)), JNum (Fin 0), JNum (Fin 0)]) (Some ''N'')
       = Some (Fin (- 10))
   \<and> \<not> (0::rat) \<le> - 10"
  by (simp add: dmsToDecimal_def parseRational_def isNaN_def)

text \<open>
  Claim C8, amended. For every triple whose three components parse to finite numbers
  that are not negative, the conversion answers a finite number that is at most zero when
  the flag is S or W, strictly negative unless all three components are zero, and at
  least zero for every other flag and for none.
\<close>

theorem dmsToDecimal_sign:
  assumes "parseRational x = Fin d" "parseRational y = Fin m" "parseRational z = Fin s"
    and "0 \<le> d" "0 \<le> m" "0 \<le> s"
  shows "\<exists>v. dmsToDecimal (Some (x # y # z # rest)) ref = Some (Fin v)
     \<and> (if ref = Some ''S'' \<or> ref = Some ''W''
         then v \<le> 0 \<and> (v < 0) = (0 < d \<or> 0 < m \<or> 0 < s)
         else 0 \<le> v)"
proof -
  let ?t = "d + m / 60 + s / 3600"
  have nonneg: "0 \<le> ?t" using assms(4-6) by simp
  have pos: "(0 < ?t) = (0 < d \<or> 0 < m \<or> 0 < s)"
  proof
    assume "0 < ?t"
    show "0 < d \<or> 0 < m \<or> 0 < s"
    proof (rule ccontr)
      assume "\<not> (0 < d \<or> 0 < m \<or> 0 < s)"
      with assms(4-6) have "d = 0" "m = 0" "s = 0" by auto
      with \<open>0 < ?t\<close> show False by simp
    qed
  next
    assume h: "0 < d \<or> 0 < m \<or> 0 < s"
    have a: "0 \<le> m / 60" "0 \<le> s / 3600" using assms(5,6) by simp_all
    from h consider "0 < d" | "0 < m" | "0 < s" by blast
    then show "0 < ?t"
    proof cases
      case 1 with a show ?thesis by linarith
    next
      case 2 then have "0 < m / 60" by simp
      with a assms(4) show ?thesis by linarith
    next
      case 3 then have "0 < s / 3600" by simp
      with a assms(4) show ?thesis by linarith
    qed
  qed
  show ?thesis
  proof (cases "ref = Some ''S'' \<or> ref = Some ''W''")
    case True
    then have "dmsToDecimal (Some (x # y # z # rest)) ref = Some (Fin (- ?t))"
      using dms_finite [OF assms(1-3), of rest ref] by simp
    moreover have "- ?t \<le> 0" using nonneg by simp
    moreover have "(- ?t < 0) = (0 < d \<or> 0 < m \<or> 0 < s)"
      by (simp only: neg_less_0_iff_less pos)
    ultimately show ?thesis using True by simp
  next
    case False
    then have "dmsToDecimal (Some (x # y # z # rest)) ref = Some (Fin ?t)"
      using dms_finite [OF assms(1-3), of rest ref] by simp
    with nonneg False show ?thesis by simp
  qed
qed

theorem dmsToDecimal_sign_witness:
  "parseRational (JStr ''74/1'') = Fin 74 \<and> parseRational (JNum (Fin 30)) = Fin 30
   \<and> parseRational (JStr ''0'') = Fin 0 \<and> (0::rat) \<le> 74 \<and> (0::rat) \<le> 30 \<and> (0::rat) \<le> 0
   \<and> (\<exists>v. dmsToDecimal (Some [JStr ''74/1'', JNum (Fin 30), JStr ''0'']) (Some ''W'')
            = Some (Fin v) \<and> v < 0)"
proof -
  have a: "parseRational (JStr ''74/1'') = Fin 74" by code_simp
  have b: "parseRational (JNum (Fin 30)) = Fin 30" by code_simp
  have c: "parseRational (JStr ''0'') = Fin 0" by code_simp
  from dmsToDecimal_sign [OF a b c, of "[]" "Some ''W''"] a b c show ?thesis by auto
qed

text \<open>
  Claim C2, at the input that shows the defect. The text \<^verbatim>\<open>abc\<close> is not a number and
  not a rational, yet \<open>parseRational\<close> turns it into zero, so the test for NaN in
  \<open>dmsToDecimal\<close> never sees it: the triple \<^verbatim>\<open>["abc", 30, 0]\<close> with flag N converts to
  0.5, and the tags that hold it yield a coordinate instead of the null that would send
  the resolution on to the device.
\<close>

theorem unparsable_component_zeroed:
  "Number_str ''abc'' = NaN
   \<and> parseRational (JStr ''abc'') = Fin 0
   \<and> dmsToDecimal (Some [JStr ''abc'', JNum (Fin 30), JNum (Fin 0)]) (Some ''N'')
       = Some (Fin (1 / 2))
   \<and> getCoordsFromExif
        \<lparr>GPSLatitude = Some [JStr ''abc'', JNum (Fin 30), JNum (Fin 0)],
         GPSLatitudeRef = Some ''N'',
         GPSLongitude = Some [JNum (Fin 74), JNum (Fin 0), JNum (Fin 0)],
         GPSLongitudeRef = Some ''W''\<rparr>
      = Some (Fin (1 / 2), Fin (- 74))"
  by code_simp

section \<open>Properties of the confirmation predicate\<close>

text \<open>
  Claim C3. For a complaint with both instants \<open>u\<close> (updated) and \<open>s\<close> (submitted) and
  a clock reading \<open>now\<close>, the predicate is \<open>s < u\<close> together with
  \<open>now - u \<le> 7 days\<close>. It holds for an update one day ago of a complaint submitted two
  days ago; it fails for an update eight days ago, and for an update that is older than
  the submitted instant.
\<close>

theorem isRecentlyUpdated_formula:
  "isRecentlyUpdated now (c\<lparr>updated_at := Some u, submitted_date := Some s\<rparr>)
     = (s < u \<and> now - u \<le> 7 * day_ms)
   \<and> isRecentlyUpdated now
       (c\<lparr>updated_at := Some (now - day_ms), submitted_date := Some (now - 2 * day_ms)\<rparr>)
   \<and> \<not> isRecentlyUpdated now
       (c\<lparr>updated_at := Some (now - 8 * day_ms), submitted_date := Some (now - 9 * day_ms)\<rparr>)
   \<and> \<not> isRecentlyUpdated now
       (c\<lparr>updated_at := Some (now - 2 * day_ms), submitted_date := Some (now - day_ms)\<rparr>)"
proof -
  have q: "((of_int (now - u) :: rat) / (1000 * 60 * 60 * 24) \<le> 7) = (now - u \<le> 7 * day_ms)"
    for u
  proof -
    have "((of_int (now - u) :: rat) / 86400000 \<le> 7)
        = (of_int (now - u) \<le> (7 * 86400000 :: rat))"
      by (simp add: pos_divide_le_eq)
    also have "\<dots> = (of_int (now - u) \<le> (of_int (7 * 86400000) :: rat))" by simp
    also have "\<dots> = (now - u \<le> 7 * 86400000)" by (simp only: of_int_le_iff)
    finally show ?thesis by (simp add: day_ms_def)
  qed
  have g: "isRecentlyUpdated now (c\<lparr>updated_at := Some u, submitted_date := Some s\<rparr>)
     = (s < u \<and> now - u \<le> 7 * day_ms)" for u s
  proof -
    have "isRecentlyUpdated now (c\<lparr>updated_at := Some u, submitted_date := Some s\<rparr>)
      = (s < u \<and> (of_int (now - u) :: rat) / (1000 * 60 * 60 * 24) \<le> 7)"
      by (simp add: isRecentlyUpdated_def Let_def del: of_int_diff)
    then show ?thesis by (simp only: q)
  qed
  show ?thesis by (simp add: g) (simp add: day_ms_def)
qed

text \<open>
  Claim C10. A complaint whose updated instant or submitted instant is missing never
  needs a confirmation.
\<close>

theorem isRecentlyUpdated_missing:
  "updated_at c = None \<or> submitted_date c = None \<Longrightarrow> \<not> isRecentlyUpdated now c"
  by (auto simp: isRecentlyUpdated_def split: option.splits)

theorem isRecentlyUpdated_missing_witness:
  "submitted_date
     \<lparr>title = ''Pothole'', description = ''Deep'', category_id = 3, status = ''resolved'',
      created_at = 1000, updated_at = Some 5000, submitted_date = None,
      location = ''Main St'', latitude = Fin 40, longitude = Fin (- 74),
      photo_url = ''a.jpg'', created_by = ''a@b.c''\<rparr> = None
   \<and> \<not> isRecentlyUpdated 6000
       \<lparr>title = ''Pothole'', description = ''Deep'', category_id = 3, status = ''resolved'',
        created_at = 1000, updated_at = Some 5000, submitted_date = None,
        location = ''Main St'', latitude = Fin 40, longitude = Fin (- 74),
        photo_url = ''a.jpg'', created_by = ''a@b.c''\<rparr>"
  using isRecentlyUpdated_missing
    [of "\<lparr>title = ''Pothole'', description = ''Deep'', category_id = 3, status = ''resolved'',
      created_at = 1000, updated_at = Some 5000, submitted_date = None,
      location = ''Main St'', latitude = Fin 40, longitude = Fin (- 74),
      photo_url = ''a.jpg'', created_by = ''a@b.c''\<rparr>" 6000]
  by simp

section \<open>Properties of the handlers\<close>

lemma fields_sum:
  "MakeDate (Day t) (MakeTime (HourFromTime t) (MinFromTime t) (SecFromTime t) (msFromTime t)) = t"
proof -
  define a where "a = t div 1000"
  define b where "b = a div 60"
  define c where "c = b div 60"
  have b: "t div 60000 = b"
    using zdiv_zmult2_eq [of 60 t 1000] by (simp add: a_def b_def)
  have c: "t div 3600000 = c"
    using zdiv_zmult2_eq [of 60 t 60000] b by (simp add: c_def)
  have d: "t div 86400000 = c div 24"
    using zdiv_zmult2_eq [of 24 t 3600000] c by simp
  have 1: "t = a * 1000 + t mod 1000" by (simp add: a_def)
  have 2: "a = b * 60 + a mod 60" by (simp add: b_def)
  have 3: "b = c * 60 + b mod 60" by (simp add: c_def)
  have 4: "c = (c div 24) * 24 + c mod 24" by simp
  have "(c div 24) * 86400000
      + ((c mod 24) * 3600000 + (b mod 60) * 60000 + (a mod 60) * 1000 + t mod 1000) = t"
    using 1 2 3 4 by linarith
  then show ?thesis
    by (simp add: MakeDate_def MakeTime_def Day_def HourFromTime_def MinFromTime_def
        SecFromTime_def msFromTime_def b c d a_def [symmetric])
qed

text \<open>
  Adding two to the seconds field moves the wall-clock time by two seconds; the instant
  is that wall-clock time read back with the zone's offset for it.
\<close>

lemma futureDate_wall: "futureDate e = UTC e (LocalTime e (stampClock e) + 2000)"
proof -
  let ?tl = "LocalTime e (stampClock e)"
  have "MakeDate (Day ?tl)
          (MakeTime (HourFromTime ?tl) (MinFromTime ?tl) (SecFromTime ?tl + 2) (msFromTime ?tl))
      = MakeDate (Day ?tl)
          (MakeTime (HourFromTime ?tl) (MinFromTime ?tl) (SecFromTime ?tl) (msFromTime ?tl))
        + 2000"
    by (simp add: MakeDate_def MakeTime_def algebra_simps)
  then show ?thesis
    by (simp add: futureDate_def setSeconds_def getSeconds_def Let_def fields_sum)
qed

lemma futureDate_same_offset:
  assumes "LocalTZA_local e (stampClock e + LocalTZA_utc e (stampClock e) + 2000)
      = LocalTZA_utc e (stampClock e)"
  shows "futureDate e = stampClock e + 2000"
  using assms by (simp add: futureDate_wall UTC_def LocalTime_def)

lemma futureDate_cong:
  assumes "stampClock e' = stampClock e" "LocalTZA_utc e' = LocalTZA_utc e"
    "LocalTZA_local e' = LocalTZA_local e"
  shows "futureDate e' = futureDate e"
  using assms by (simp add: futureDate_wall UTC_def LocalTime_def)

lemma apply_accept_patch:
  "apply_patch (accept_patch fd) r = r\<lparr>status := ''verified'', submitted_date := Some fd\<rparr>"
  by (simp add: apply_patch_def accept_patch_def no_patch_def written_def written_opt_def)









section \<open>Accepting and rejecting\<close>

text \<open>
  Claim C1, as the claim states it, fails: Accept does write the status. The sample
  complaint is resolved before Accept and verified after it.
\<close>

theorem accept_keeps_status_counterexample:
  "map_option status (complaints sample_world 1) = Some ''resolved''
   \<and> fst (handleAcceptStatus sample_env 1 ''resolved'' sample_world) = Some (Alert ''OK'' verified_notice)
   \<and> map_option status (complaints (snd (handleAcceptStatus sample_env 1 ''resolved'' sample_world)) 1)
       = Some ''verified''"
  by code_simp

text \<open>
  Claim C1, amended. Accept sends one update with two entries, whatever the status was:
  the status \<^verbatim>\<open>verified\<close>, and as submitted instant the clock reading with two added
  to the seconds field of its local time. That instant is the wall-clock time two seconds
  on, read back with the zone's offset for it, and so it is two seconds past the clock
  reading whenever that offset is the one in force at the reading. When the update
  commits, the row keeps every other column, \<open>updated_at\<close> apart, which the table
  assigns. When the update fails, nothing changes and the error is shown.
\<close>

theorem handleAcceptStatus_effect:
  "handleAcceptStatus (e\<lparr>updateAnswer := None\<rparr>) cid st w =
     (Some (Alert ''OK'' verified_notice),
      w\<lparr>complaints :=
          (case complaints w cid of
             None \<Rightarrow> complaints w
           | Some r \<Rightarrow>
               (complaints w)(cid \<mapsto>
                  r\<lparr>status := ''verified'', submitted_date := Some (futureDate e),
                    updated_at := Some (serverStamp e)\<rparr>)),
        writes := writes w @ [(cid, accept_patch (futureDate e))]\<rparr>)
   \<and> accept_patch fd =
       \<lparr>p_title = None, p_description = None, p_category_id = None,
        p_status = Some ''verified'', p_created_at = None, p_updated_at = None,
        p_submitted_date = Some fd, p_location = None, p_latitude = None,
        p_longitude = None, p_photo_url = None, p_created_by = None\<rparr>
   \<and> futureDate e = UTC e (LocalTime e (stampClock e) + 2000)
   \<and> (LocalTZA_local e (stampClock e + LocalTZA_utc e (stampClock e) + 2000)
          = LocalTZA_utc e (stampClock e)
        \<longrightarrow> futureDate e = stampClock e + 2000)
   \<and> handleAcceptStatus (e\<lparr>updateAnswer := Some err\<rparr>) cid st w =
       (Some (Alert ''Error'' (message_or err ''Failed to update status'')), w)"
proof (intro conjI impI)
  have fd: "futureDate (e\<lparr>updateAnswer := None\<rparr>) = futureDate e"
    by (rule futureDate_cong) simp_all
  show "handleAcceptStatus (e\<lparr>updateAnswer := None\<rparr>) cid st w =
     (Some (Alert ''OK'' verified_notice),
      w\<lparr>complaints :=
          (case complaints w cid of
             None \<Rightarrow> complaints w
           | Some r \<Rightarrow>
               (complaints w)(cid \<mapsto>
                  r\<lparr>status := ''verified'', submitted_date := Some (futureDate e),
                    updated_at := Some (serverStamp e)\<rparr>)),
        writes := writes w @ [(cid, accept_patch (futureDate e))]\<rparr>)"
    by (simp add: handleAcceptStatus_def store_update_def committed_def apply_accept_patch fd
        split: option.splits)
next
  show "accept_patch fd =
       \<lparr>p_title = None, p_description = None, p_category_id = None,
        p_status = Some ''verified'', p_created_at = None, p_updated_at = None,
        p_submitted_date = Some fd, p_location = None, p_latitude = None,
        p_longitude = None, p_photo_url = None, p_created_by = None\<rparr>"
    by (simp add: accept_patch_def no_patch_def)
next
  show "futureDate e = UTC e (LocalTime e (stampClock e) + 2000)"
    by (rule futureDate_wall)
next
  assume "LocalTZA_local e (stampClock e + LocalTZA_utc e (stampClock e) + 2000)
          = LocalTZA_utc e (stampClock e)"
  then show "futureDate e = stampClock e + 2000"
    by (rule futureDate_same_offset)
next
  show "handleAcceptStatus (e\<lparr>updateAnswer := Some err\<rparr>) cid st w =
       (Some (Alert ''Error'' (message_or err ''Failed to update status'')), w)"
    by (simp add: handleAcceptStatus_def store_update_def)
qed

theorem handleAcceptStatus_effect_witness:
  "LocalTZA_local sample_env (stampClock sample_env + LocalTZA_utc sample_env (stampClock sample_env) + 2000)
     = LocalTZA_utc sample_env (stampClock sample_env)
   \<and> futureDate sample_env = 8000
   \<and> complaints (snd (handleAcceptStatus (sample_env\<lparr>updateAnswer := None\<rparr>) 1 ''resolved''
                      sample_world)) 1
       = Some (sample_complaint\<lparr>status := ''verified'', submitted_date := Some 8000,
                 updated_at := Some 6400\<rparr>)"
proof -
  have z: "LocalTZA_local sample_env
             (stampClock sample_env + LocalTZA_utc sample_env (stampClock sample_env) + 2000)
     = LocalTZA_utc sample_env (stampClock sample_env)"
    by (simp add: sample_env_def)
  have c: "stampClock sample_env = 6000" "serverStamp sample_env = 6400"
    by (simp_all add: sample_env_def)
  note effect =
    handleAcceptStatus_effect [of sample_env 1 "''resolved''" sample_world 0 "JsError []"]
  from effect z have "futureDate sample_env = stampClock sample_env + 2000"
    by blast
  with c have fd: "futureDate sample_env = 8000" by simp
  have row: "complaints (snd (handleAcceptStatus (sample_env\<lparr>updateAnswer := None\<rparr>) 1
                      ''resolved'' sample_world)) 1
       = Some (sample_complaint\<lparr>status := ''verified'', submitted_date := Some 8000,
                 updated_at := Some 6400\<rparr>)"
    by code_simp
  from z fd row show ?thesis by blast
qed









text \<open>
  A geocoder that throws is the same to the handler as a geocoder that finds nothing.
\<close>

lemma geocode_failure_as_empty:
  assumes "reverseGeocode e = Inl gerr"
  shows "handleImageSelection e cid d src w
      = handleImageSelection (e\<lparr>reverseGeocode := Inr []\<rparr>) cid d src w"
proof -
  let ?e = "e\<lparr>reverseGeocode := Inr []\<rparr>"
  have pk: "pick_image ?e src = pick_image e src"
    by (cases src) (simp_all add: pick_image_def split: sum.splits)
  have rc: "resolve_coords ?e ex = resolve_coords e ex" for ex
    by (simp add: resolve_coords_def cong: option.case_cong sum.case_cong if_cong)
  have ra: "resolve_address ?e = resolve_address e"
    using assms by (simp add: resolve_address_def)
  have fd: "futureDate ?e = futureDate e"
    by (rule futureDate_cong) simp_all
  have uu: "upload_and_update ?e cid u c address w = upload_and_update e cid u c address w"
    for u c address
    by (simp add: upload_and_update_def fileName_def fd
        cong: option.case_cong sum.case_cong prod.case_cong)
  have ap: "after_pick ?e cid result w = after_pick e cid result w" for result
    by (simp add: after_pick_def rc ra uu
        split: picker_result.splits list.splits sum.splits option.splits)
  show ?thesis by (simp add: handleImageSelection_def pk ap cong: sum.case_cong)
qed

text \<open>
  Claim C9. When the coordinate \<open>c\<close> has been resolved and the geocoder throws, the
  address is the placeholder and the run goes on: with the fetch, the upload and the
  update answering well, Reject ends with the success alert after committing the patch
  that holds \<open>c\<close> and the placeholder. Whatever the later steps answer, the run is the
  one a geocoder with an empty answer gives.
\<close>

theorem geocoding_failure_recovered:
  assumes "reverseGeocode e = Inl gerr"
    and "pick_image e src = Inr (Inr (Picked (x # rest)))"
    and "resolve_coords e (exif x) = Inr (Some c)"
    and "fetchImage e = Inr bytes" and "uploadAnswer e = None" and "updateAnswer e = None"
  shows "resolve_address e = ''Location not available''
    \<and> handleImageSelection e cid d src w =
        (Some success_alert,
         committed (serverStamp e) cid
           (reject_patch (publicUrlOf e (fileName e (uri x))) c ''Location not available''
              (futureDate e))
           (w\<lparr>bucket := (bucket w)(fileName e (uri x) \<mapsto> bytes)\<rparr>))
    \<and> p_location (reject_patch (publicUrlOf e (fileName e (uri x))) c ''Location not available''
              (futureDate e)) = Some ''Location not available''
    \<and> p_latitude (reject_patch (publicUrlOf e (fileName e (uri x))) c ''Location not available''
              (futureDate e)) = Some (fst c)
    \<and> p_longitude (reject_patch (publicUrlOf e (fileName e (uri x))) c ''Location not available''
              (futureDate e)) = Some (snd c)
    \<and> handleImageSelection e cid d src w
        = handleImageSelection (e\<lparr>reverseGeocode := Inr []\<rparr>) cid d src w"
proof -
  have ra: "resolve_address e = ''Location not available''"
    using assms(1) by (simp add: resolve_address_def placeholder_address_def)
  have run: "handleImageSelection e cid d src w =
        (Some success_alert,
         committed (serverStamp e) cid
           (reject_patch (publicUrlOf e (fileName e (uri x))) c ''Location not available''
              (futureDate e))
           (w\<lparr>bucket := (bucket w)(fileName e (uri x) \<mapsto> bytes)\<rparr>))"
    using assms(2-6) ra
    by (simp add: handleImageSelection_def after_pick_def upload_and_update_def
        storage_upload_def store_update_def)
  have same: "handleImageSelection e cid d src w
      = handleImageSelection (e\<lparr>reverseGeocode := Inr []\<rparr>) cid d src w"
    using assms(1) by (rule geocode_failure_as_empty)
  show ?thesis using ra run same by (simp add: reject_patch_def)
qed

theorem geocoding_failure_recovered_witness:
  "reverseGeocode (sample_env\<lparr>reverseGeocode := Inl (JsError ''geocoder down'')\<rparr>)
     = Inl (JsError ''geocoder down'')
   \<and> fst (handleImageSelection (sample_env\<lparr>reverseGeocode := Inl (JsError ''geocoder down'')\<rparr>) 1
           (''Pothole'', ''Deep hole'', 3) Camera sample_world) = Some success_alert
   \<and> complaints (snd (handleImageSelection
                        (sample_env\<lparr>reverseGeocode := Inl (JsError ''geocoder down'')\<rparr>) 1
                        (''Pothole'', ''Deep hole'', 3) Camera sample_world)) 1
       = Some (sample_complaint
                \<lparr>photo_url := ''https://store/1700.png'', latitude := Fin 40,
                  longitude := Fin (- 74), location := ''Location not available'',
                  status := ''pending'', submitted_date := Some 8000, updated_at := Some 6400\<rparr>)"
proof -
  let ?e = "sample_env\<lparr>reverseGeocode := Inl (JsError ''geocoder down'')\<rparr>"
  let ?x = "\<lparr>uri = ''file:///photo.png'', exif = None\<rparr>"
  have g: "reverseGeocode ?e = Inl (JsError ''geocoder down'')" by simp
  have pk: "pick_image ?e Camera = Inr (Inr (Picked (?x # [])))"
    by (simp add: pick_image_def sample_env_def)
  have rc: "resolve_coords ?e (exif ?x) = Inr (Some (Fin 40, Fin (- 74)))"
    by (simp add: resolve_coords_def sample_env_def)
  have ft: "fetchImage ?e = Inr [137, 80, 78, 71]" by (simp add: sample_env_def)
  have up: "uploadAnswer ?e = None" "updateAnswer ?e = None" by (simp_all add: sample_env_def)
  have co: "complaints (snd (handleImageSelection ?e 1 (''Pothole'', ''Deep hole'', 3) Camera
              sample_world)) 1
       = Some (sample_complaint
                \<lparr>photo_url := ''https://store/1700.png'', latitude := Fin 40,
                  longitude := Fin (- 74), location := ''Location not available'',
                  status := ''pending'', submitted_date := Some 8000, updated_at := Some 6400\<rparr>)"
    by code_simp
  from geocoding_failure_recovered
         [OF g pk rc ft up, of 1 "(''Pothole'', ''Deep hole'', 3)" sample_world] g co
  show ?thesis by simp
qed

end
